theory Spec2Isabelle
  imports Complex_Main "HOL-Library.Sublist"
begin

section \<open>SoundGuard AI: the audio record, the Python gateway and the controllers\<close>

text \<open>
  The server keeps one Mongoose document per uploaded audio file (models/Audio.js), calls a
  Python service for each of four analysis modules (services/pythonService.js) and broadcasts
  progress messages over a WebSocket server (controllers/audioController.js, server.js).

  Conventions of the embedding:
  \<^item> \<open>null\<close> and \<open>undefined\<close> of a field of the document are \<open>None\<close>;
  \<^item> JavaScript numbers that the code only compares are \<open>real\<close> (scores, duration) or
    \<open>int\<close> (counts and sizes); a string is a list of characters below U+0100, and the
    string functions of the JavaScript library (\<open>trim\<close>, \<open>toLowerCase\<close>) are modelled on
    that range;
  \<^item> a thrown error or a rejected promise is the \<open>Inl\<close> of a sum;
  \<^item> what the server sends over the network is kept in the order it is sent, in the
    \<open>journal\<close> of the server, each entry with the number of the request it is sent for;
  \<^item> what the outside world answers (the HTTP exchange with the Python service, the
    result of ffprobe, the identifier the driver generates, whether the database accepts a
    write) is an argument of the function that asks for it;
  \<^item> the timestamps of a document (\<open>uploadDate\<close>, \<open>createdAt\<close>, \<open>updatedAt\<close>) and the
    \<open>data\<close> object of a success response are left out: no function below reads them.
\<close>

subsection \<open>JavaScript strings and values\<close>

text \<open>
  White space and line terminators of ECMAScript below U+0100: tab, line feed, vertical tab,
  form feed, carriage return, space and the no-break space U+00A0.
\<close>

definition is_space :: "char \<Rightarrow> bool" where
  "is_space c =
     (c \<in> set [CHR '' '', CHR 0x09, CHR 0x0A, CHR 0x0B, CHR 0x0C, CHR 0x0D, CHR 0xA0])"

text \<open>\<open>String.prototype.trim\<close>: drops white space at both ends.\<close>

definition trim :: "string \<Rightarrow> string" where
  "trim s = rev (dropWhile is_space (rev (dropWhile is_space s)))"

text \<open>
  The upper-case letters below U+0100: A to Z, and the letters U+00C0 to U+00DE without the
  multiplication sign U+00D7. Each has its lower-case letter 32 places further.
\<close>

definition is_upper :: "char \<Rightarrow> bool" where
  "is_upper c =
     (let n = (of_char c :: nat)
      in (65 \<le> n \<and> n \<le> 90) \<or> (192 \<le> n \<and> n \<le> 214) \<or> (216 \<le> n \<and> n \<le> 222))"

definition toLowerChar :: "char \<Rightarrow> char" where
  "toLowerChar c = (if is_upper c then char_of ((of_char c :: nat) + 32) else c)"

text \<open>\<open>String.prototype.toLowerCase\<close>.\<close>

definition toLowerCase :: "string \<Rightarrow> string" where
  "toLowerCase s = map toLowerChar s"

text \<open>A number in a template literal: its decimal digits.\<close>

definition digit_char :: "nat \<Rightarrow> char" where
  "digit_char d = char_of (d + 48)"

fun string_of_nat :: "nat \<Rightarrow> string" where
  "string_of_nat n =
     (if 10 \<le> n then string_of_nat (n div 10) @ [digit_char (n mod 10)] else [digit_char n])"

declare string_of_nat.simps [simp del]

text \<open>A JSON value, for the parts of a service response that the server stores unread.\<close>

datatype json =
    JNull
  | JBool bool
  | JNum real
  | JStr string
  | JArr "json list"
  | JObj "(string \<times> json) list"

text \<open>Truthiness: \<open>null\<close>, \<open>false\<close>, \<open>0\<close> and the empty string are falsy.\<close>

fun truthy :: "json \<Rightarrow> bool" where
  "truthy JNull = False"
| "truthy (JBool b) = b"
| "truthy (JNum r) = (r \<noteq> 0)"
| "truthy (JStr s) = (s \<noteq> [])"
| "truthy (JArr _) = True"
| "truthy (JObj _) = True"

text \<open>\<open>x || null\<close> for a JSON value, a string and a number (\<open>None\<close> is \<open>undefined\<close> or \<open>null\<close>).\<close>

definition json_or_null :: "json option \<Rightarrow> json option" where
  "json_or_null x = (case x of None \<Rightarrow> None | Some j \<Rightarrow> if truthy j then Some j else None)"

definition str_or_null :: "string option \<Rightarrow> string option" where
  "str_or_null x = (case x of None \<Rightarrow> None | Some s \<Rightarrow> if s \<noteq> [] then Some s else None)"

definition real_or_null :: "real option \<Rightarrow> real option" where
  "real_or_null x = (case x of None \<Rightarrow> None | Some r \<Rightarrow> if r \<noteq> 0 then Some r else None)"

definition int_or_null :: "int option \<Rightarrow> int option" where
  "int_or_null x = (case x of None \<Rightarrow> None | Some i \<Rightarrow> if i \<noteq> 0 then Some i else None)"

text \<open>
  The option \<open>minimize\<close> of a Mongoose schema, which is on by default: before an object is
  written, every field of it that holds an object without fields is dropped, from the inside
  out, and an object left without fields is not written at all, so that the path reads
  \<open>null\<close> again. Arrays are not looked into.
\<close>

fun minimize :: "json \<Rightarrow> json option"
  and minimize_fields :: "(string \<times> json) list \<Rightarrow> (string \<times> json) list" where
  "minimize (JObj kvs) =
     (case minimize_fields kvs of [] \<Rightarrow> None | kv # kvs' \<Rightarrow> Some (JObj (kv # kvs')))"
| "minimize JNull = Some JNull"
| "minimize (JBool b) = Some (JBool b)"
| "minimize (JNum r) = Some (JNum r)"
| "minimize (JStr s) = Some (JStr s)"
| "minimize (JArr xs) = Some (JArr xs)"
| "minimize_fields [] = []"
| "minimize_fields ((k, v) # kvs) =
     (case minimize v of
        None \<Rightarrow> minimize_fields kvs
      | Some v' \<Rightarrow> (k, v') # minimize_fields kvs)"

definition minimize_field :: "json option \<Rightarrow> json option" where
  "minimize_field x = (case x of None \<Rightarrow> None | Some j \<Rightarrow> minimize j)"

subsection \<open>Responses of the Python service (services/pythonService.js)\<close>

text \<open>
  The response bodies, at the shape the service documents: a JSON object with the fields
  below, whose scores are numbers, whose flag is a boolean and whose paths are strings.
  \<open>None\<close> is a field that the body does not have (for a path, also one that is \<open>null\<close>).
  The fields are prefixed where a name is also a field of the document.
\<close>

record enhance_result =
  enhancedFilePath :: "string option"
  enhanced_file_path :: "string option"
  enh_metrics :: "json option"

record explain_result =
  noiseDetections :: "json option"
  spectrograms :: "json option"
  report :: "json option"

record aqi_result =
  res_aqiScore :: "real option"
  aqi_metrics :: "json option"

record forensics_result =
  res_authenticityScore :: "real option"
  res_tamperingDetected :: "bool option"
  detections :: "json option"
  summary :: "json option"

text \<open>
  \<open>minimize\<close> on a response body that is stored whole: its fields that hold objects are
  minimized, and a body left without fields is not written.
\<close>

definition minimize_explain :: "explain_result \<Rightarrow> explain_result option" where
  "minimize_explain r =
     (let r' = \<lparr>noiseDetections = minimize_field (noiseDetections r),
                spectrograms = minimize_field (spectrograms r),
                report = minimize_field (report r)\<rparr>
      in if noiseDetections r' = None \<and> spectrograms r' = None \<and> report r' = None then None
         else Some r')"

definition minimize_aqi :: "aqi_result \<Rightarrow> aqi_result option" where
  "minimize_aqi r =
     (let r' = \<lparr>res_aqiScore = res_aqiScore r, aqi_metrics = minimize_field (aqi_metrics r)\<rparr>
      in if res_aqiScore r' = None \<and> aqi_metrics r' = None then None else Some r')"

definition minimize_forensics :: "forensics_result \<Rightarrow> forensics_result option" where
  "minimize_forensics r =
     (let r' = \<lparr>res_authenticityScore = res_authenticityScore r,
                res_tamperingDetected = res_tamperingDetected r,
                detections = minimize_field (detections r),
                summary = minimize_field (summary r)\<rparr>
      in if res_authenticityScore r' = None \<and> res_tamperingDetected r' = None
            \<and> detections r' = None \<and> summary r' = None then None
         else Some r')"

subsection \<open>The Audio document (models/Audio.js)\<close>

record processing =
  enhanced :: bool
  enhancementModel :: "string option"
  aqiScore :: "real option"
  authenticityScore :: "real option"
  tamperingDetected :: "bool option"

record results =
  enhancement :: "json option"
  explainability :: "explain_result option"
  aqi :: "aqi_result option"
  forensics :: "forensics_result option"

record audio =
  filename :: string
  originalPath :: "string option"
  enhancedPath :: "string option"
  format :: "string option"
  duration :: "real option"
  sampleRate :: "int option"
  channels :: "int option"
  fileSize :: "int option"
  bitrate :: "int option"
  processing :: processing
  results :: results

text \<open>The defaults of \<open>processingSchema\<close> and \<open>resultsSchema\<close>.\<close>

definition processing_default :: processing where
  "processing_default =
     \<lparr>enhanced = False, enhancementModel = None, aqiScore = None,
      authenticityScore = None, tamperingDetected = None\<rparr>"

definition results_default :: results where
  "results_default =
     \<lparr>enhancement = None, explainability = None, aqi = None, forensics = None\<rparr>"

text \<open>
  \<open>new Audio({...})\<close> with the fields that \<open>uploadAudio\<close> passes: the string fields
  declared \<open>trim: true\<close> are trimmed by their setter, the fields not passed take their
  defaults.
\<close>

definition new_Audio ::
  "string \<Rightarrow> string \<Rightarrow> string \<Rightarrow> real option \<Rightarrow> int option \<Rightarrow> int option \<Rightarrow> int \<Rightarrow>
   int option \<Rightarrow> audio" where
  "new_Audio fname opath fmt dur rate chans fsize brate =
     \<lparr>filename = trim fname, originalPath = Some (trim opath), enhancedPath = None,
      format = Some (trim fmt), duration = dur, sampleRate = rate, channels = chans,
      fileSize = Some fsize, bitrate = brate,
      processing = processing_default, results = results_default\<rparr>"

subsection \<open>Validation and saving\<close>

text \<open>
  The validators that the schemas declare, each returning the paths that fail. A validator
  other than \<open>required\<close> does not run on \<open>null\<close>.
\<close>

definition format_values :: "string list" where
  "format_values = [''mp3'', ''wav'', ''flac'', ''ogg'', ''m4a'', ''aac'']"

definition enhancementModel_values :: "string list" where
  "enhancementModel_values = [''DEMUCS'', ''CleanUNet'', ''FullSubNet+'']"

definition check :: "string \<Rightarrow> 'a option \<Rightarrow> ('a \<Rightarrow> bool) \<Rightarrow> string list" where
  "check p v ok = (case v of None \<Rightarrow> [] | Some x \<Rightarrow> if ok x then [] else [p])"

definition validate_processing :: "processing \<Rightarrow> string list" where
  "validate_processing p =
     check ''processing.enhancementModel'' (enhancementModel p)
       (\<lambda>m. m \<in> set enhancementModel_values)
     @ check ''processing.aqiScore'' (aqiScore p) (\<lambda>x. 0 \<le> x \<and> x \<le> 100)
     @ check ''processing.authenticityScore'' (authenticityScore p) (\<lambda>x. 0 \<le> x \<and> x \<le> 100)"

definition validate :: "audio \<Rightarrow> string list" where
  "validate a =
     (if filename a = [] then [''filename''] else [])
     @ check ''format'' (format a) (\<lambda>f. f \<in> set format_values)
     @ check ''duration'' (duration a) (\<lambda>x. 0 \<le> x)
     @ check ''sampleRate'' (sampleRate a) (\<lambda>x. 0 \<le> x)
     @ check ''channels'' (channels a) (\<lambda>x. 1 \<le> x \<and> x \<le> 8)
     @ check ''fileSize'' (fileSize a) (\<lambda>x. 0 \<le> x)
     @ check ''bitrate'' (bitrate a) (\<lambda>x. 0 \<le> x)
     @ validate_processing (processing a)"

text \<open>The pre-save hook: \<open>if (this.format) this.format = this.format.toLowerCase()\<close>.\<close>

definition pre_save :: "audio \<Rightarrow> audio" where
  "pre_save a =
     (case format a of
        None \<Rightarrow> a
      | Some f \<Rightarrow> if f \<noteq> [] then a\<lparr>format := Some (toLowerCase f)\<rparr> else a)"

subsection \<open>Errors, responses and progress messages\<close>

text \<open>An error of axios: its \<open>code\<close>, the HTTP response when the service answered, its text.\<close>

record http_response =
  http_status :: nat
  data_message :: "string option"
  data_error :: "string option"

record axios_error =
  code :: "string option"
  response :: "http_response option"
  ax_message :: string

text \<open>
  What a \<open>catch\<close> block can receive: an \<open>Error\<close> made by \<open>new Error(msg)\<close>, an error of
  axios thrown again as it came, a validation error of Mongoose (with the failing paths),
  an error of the database driver, and the error of Mongoose when the document to update is
  not there any more.
\<close>

datatype js_error =
    Error string
  | AxiosError axios_error
  | ValidationError "string list"
  | MongoError string
  | DocumentNotFoundError

text \<open>
  A text sent to a client: a string the code builds, or the \<open>message\<close> of an error whose
  wording a library chooses.
\<close>

datatype js_text = Text string | MessageOf js_error

fun err_message :: "js_error \<Rightarrow> js_text" where
  "err_message (Error m) = Text m"
| "err_message e = MessageOf e"

text \<open>
  The body of a response that is not a success: \<open>{ success, message }\<close>, and \<open>error\<close> where
  the code adds it; with the HTTP status.
\<close>

record reply =
  status :: nat
  success :: bool
  message :: js_text
  error :: "js_text option"

definition reply :: "nat \<Rightarrow> bool \<Rightarrow> js_text \<Rightarrow> reply" where
  "reply st ok m = \<lparr>status = st, success = ok, message = m, error = None\<rparr>"

text \<open>\<open>{ type: 'progress', module, status, audioId, error }\<close>.\<close>

datatype payload =
  Progress (pmodule: string) (pstatus: string) (paudioId: string) (perror: "js_text option")

subsection \<open>The server: records, upload directory, WebSocket clients, network journal\<close>

text \<open>
  What goes out over the network for request \<open>k\<close>: a message handed to the WebSocket
  clients, the POST of a file to an endpoint of the Python service, and the settling of the
  promise of that POST.
\<close>

datatype event =
    Emit nat payload
  | Posted nat string
  | Settled nat string

record client =
  readyState :: nat
  inbox :: "payload list"

record server =
  store :: "string \<rightharpoonup> audio"
  files :: "string set"
  wss :: "client list option"
  PYTHON_BASE_URL :: string
  journal :: "event list"

text \<open>
  \<open>broadcast(req, payload)\<close>: nothing without a WebSocket server, else the message goes to
  every client whose \<open>readyState\<close> is 1 (OPEN). \<open>k\<close> is the number of the request \<open>req\<close>.
\<close>

definition send_if_open :: "payload \<Rightarrow> client \<Rightarrow> client" where
  "send_if_open p c = (if readyState c = 1 then c\<lparr>inbox := inbox c @ [p]\<rparr> else c)"

definition broadcast :: "nat \<Rightarrow> server \<Rightarrow> payload \<Rightarrow> server" where
  "broadcast k s p =
     (case wss s of
        None \<Rightarrow> s
      | Some cs \<Rightarrow>
          s\<lparr>wss := Some (map (send_if_open p) cs), journal := journal s @ [Emit k p]\<rparr>)"

text \<open>\<open>safeUnlink\<close>: removes the file when the path is non-empty and the file exists.\<close>

definition safeUnlink :: "server \<Rightarrow> string option \<Rightarrow> server" where
  "safeUnlink s filePath =
     (case str_or_null filePath of
        None \<Rightarrow> s
      | Some p \<Rightarrow> if p \<in> files s then s\<lparr>files := files s - {p}\<rparr> else s)"

text \<open>
  \<open>mongoose.Types.ObjectId.isValid\<close> on a string, in the Mongoose 8 that server.js names:
  24 hexadecimal digits. \<open>validateId\<close> answers 400 for any other identifier.
\<close>

definition is_hex :: "char \<Rightarrow> bool" where
  "is_hex c =
     (let n = (of_char c :: nat)
      in (48 \<le> n \<and> n \<le> 57) \<or> (65 \<le> n \<and> n \<le> 70) \<or> (97 \<le> n \<and> n \<le> 102))"

definition isValid :: "string \<Rightarrow> bool" where
  "isValid i = (length i = 24 \<and> list_all is_hex i)"

definition validateId :: "string \<Rightarrow> reply option" where
  "validateId i =
     (if isValid i then None else Some (reply 400 False (Text ''Invalid audio ID.'')))"

subsection \<open>Saving a document\<close>

text \<open>
  An update writes the paths that were modified since the document was loaded, and leaves
  the others as the database has them: \<open>keep\<close> is the value of a path after the update, from
  its value when the document was loaded, its value now and its value in the database. A
  modified path of type \<open>Mixed\<close> is written minimized.
\<close>

definition keep :: "'a \<Rightarrow> 'a \<Rightarrow> 'a \<Rightarrow> 'a" where
  "keep loaded new cur = (if new = loaded then cur else new)"

definition keep_mixed :: "('a \<Rightarrow> 'a option) \<Rightarrow> 'a option \<Rightarrow> 'a option \<Rightarrow> 'a option \<Rightarrow> 'a option" where
  "keep_mixed mini loaded new cur =
     (if new = loaded then cur else (case new of None \<Rightarrow> None | Some x \<Rightarrow> mini x))"

definition updated :: "audio \<Rightarrow> audio \<Rightarrow> audio \<Rightarrow> audio" where
  "updated loaded a cur =
     \<lparr>filename = keep (filename loaded) (filename a) (filename cur),
      originalPath = keep (originalPath loaded) (originalPath a) (originalPath cur),
      enhancedPath = keep (enhancedPath loaded) (enhancedPath a) (enhancedPath cur),
      format = keep (format loaded) (format a) (format cur),
      duration = keep (duration loaded) (duration a) (duration cur),
      sampleRate = keep (sampleRate loaded) (sampleRate a) (sampleRate cur),
      channels = keep (channels loaded) (channels a) (channels cur),
      fileSize = keep (fileSize loaded) (fileSize a) (fileSize cur),
      bitrate = keep (bitrate loaded) (bitrate a) (bitrate cur),
      processing =
        \<lparr>enhanced =
           keep (enhanced (processing loaded)) (enhanced (processing a))
             (enhanced (processing cur)),
         enhancementModel =
           keep (enhancementModel (processing loaded)) (enhancementModel (processing a))
             (enhancementModel (processing cur)),
         aqiScore =
           keep (aqiScore (processing loaded)) (aqiScore (processing a))
             (aqiScore (processing cur)),
         authenticityScore =
           keep (authenticityScore (processing loaded)) (authenticityScore (processing a))
             (authenticityScore (processing cur)),
         tamperingDetected =
           keep (tamperingDetected (processing loaded)) (tamperingDetected (processing a))
             (tamperingDetected (processing cur))\<rparr>,
      results =
        \<lparr>enhancement =
           keep_mixed minimize (enhancement (results loaded)) (enhancement (results a))
             (enhancement (results cur)),
         explainability =
           keep_mixed minimize_explain (explainability (results loaded))
             (explainability (results a)) (explainability (results cur)),
         aqi =
           keep_mixed minimize_aqi (aqi (results loaded)) (aqi (results a)) (aqi (results cur)),
         forensics =
           keep_mixed minimize_forensics (forensics (results loaded)) (forensics (results a))
             (forensics (results cur))\<rparr>\<rparr>"

text \<open>An insert writes the whole document, minimized.\<close>

definition inserted :: "audio \<Rightarrow> audio" where
  "inserted a =
     a\<lparr>results :=
         \<lparr>enhancement = minimize_field (enhancement (results a)),
          explainability =
            (case explainability (results a) of None \<Rightarrow> None | Some x \<Rightarrow> minimize_explain x),
          aqi = (case aqi (results a) of None \<Rightarrow> None | Some x \<Rightarrow> minimize_aqi x),
          forensics =
            (case forensics (results a) of None \<Rightarrow> None | Some x \<Rightarrow> minimize_forensics x)\<rparr>\<rparr>"

text \<open>
  \<open>document.save()\<close>: the validators of the document run first (validation is the first
  pre-save hook of Mongoose) and fail together with the paths whose value could not be cast
  when it was assigned (\<open>cast\<close>); then the pre-save hook of the schema runs, then the write.
  \<open>db\<close> is the answer of the database to the write: \<open>None\<close> when it accepts it, the driver's
  error otherwise. \<open>loaded\<close> is the document as it was read from the database, \<open>None\<close> for a
  new document. A new document is inserted under its identifier, which must be unused; a
  loaded document is updated, and must still be there. The result is the server afterwards
  and the document in memory.
\<close>

definition save ::
  "string option \<Rightarrow> server \<Rightarrow> string \<Rightarrow> string list \<Rightarrow> audio option \<Rightarrow> audio \<Rightarrow>
   js_error + (server \<times> audio)" where
  "save db s i cast loaded a =
     (if cast @ validate a \<noteq> [] then Inl (ValidationError (cast @ validate a))
      else
        (let a' = pre_save a in
         case db of
           Some m \<Rightarrow> Inl (MongoError m)
         | None \<Rightarrow>
             (case loaded of
                None \<Rightarrow>
                  (case store s i of
                     None \<Rightarrow> Inr (s\<lparr>store := (store s)(i \<mapsto> inserted a')\<rparr>, a')
                   | Some cur \<Rightarrow> Inl (MongoError ''E11000 duplicate key error''))
              | Some l \<Rightarrow>
                  (case store s i of
                     None \<Rightarrow> Inl DocumentNotFoundError
                   | Some cur \<Rightarrow> Inr (s\<lparr>store := (store s)(i \<mapsto> updated l a' cur)\<rparr>, a')))))"

subsection \<open>Instance methods of the document\<close>

text \<open>
  Each method assigns its fields on the loaded document \<open>this\<close> and returns \<open>this.save()\<close>.
  The setter of \<open>enhancedPath\<close> trims the string.
\<close>

definition markEnhanced ::
  "string option \<Rightarrow> server \<Rightarrow> string \<Rightarrow> audio \<Rightarrow> string option \<Rightarrow> string option \<Rightarrow> json option \<Rightarrow>
   js_error + (server \<times> audio)" where
  "markEnhanced db s i this enhPath modelName metrics =
     save db s i [] (Some this)
       (this\<lparr>enhancedPath := map_option trim enhPath,
             processing := (processing this)\<lparr>enhanced := True, enhancementModel := modelName\<rparr>,
             results := (results this)\<lparr>enhancement := json_or_null metrics\<rparr>\<rparr>)"

definition saveAQI ::
  "string option \<Rightarrow> server \<Rightarrow> string \<Rightarrow> audio \<Rightarrow> real option \<Rightarrow> aqi_result option \<Rightarrow>
   js_error + (server \<times> audio)" where
  "saveAQI db s i this score detailedMetrics =
     save db s i [] (Some this)
       (this\<lparr>processing := (processing this)\<lparr>aqiScore := score\<rparr>,
             results := (results this)\<lparr>aqi := detailedMetrics\<rparr>\<rparr>)"

definition saveForensics ::
  "string option \<Rightarrow> server \<Rightarrow> string \<Rightarrow> audio \<Rightarrow> real option \<Rightarrow> bool option \<Rightarrow>
   forensics_result option \<Rightarrow> js_error + (server \<times> audio)" where
  "saveForensics db s i this score tampered details =
     save db s i [] (Some this)
       (this\<lparr>processing :=
               (processing this)\<lparr>authenticityScore := score, tamperingDetected := tampered\<rparr>,
             results := (results this)\<lparr>forensics := details\<rparr>\<rparr>)"

definition saveExplainability ::
  "string option \<Rightarrow> server \<Rightarrow> string \<Rightarrow> audio \<Rightarrow> explain_result option \<Rightarrow>
   js_error + (server \<times> audio)" where
  "saveExplainability db s i this data =
     save db s i [] (Some this) (this\<lparr>results := (results this)\<lparr>explainability := data\<rparr>\<rparr>)"

subsection \<open>The gateway to the Python service (services/pythonService.js)\<close>

text \<open>
  \<open>handlePythonError\<close> always throws; the model returns the error it throws. The base URL
  is the module constant \<open>PYTHON_BASE_URL\<close>.
\<close>

definition handlePythonError :: "string \<Rightarrow> axios_error \<Rightarrow> string \<Rightarrow> js_error" where
  "handlePythonError base err endpoint =
     (if code err = Some ''ECONNREFUSED'' then
        Error (''Python service is not reachable at '' @ base @ endpoint @ ''. Is it running?'')
      else
        (case response err of
           Some r \<Rightarrow>
             Error
               (case str_or_null (data_message r) of
                  Some m \<Rightarrow> m
                | None \<Rightarrow>
                    (case str_or_null (data_error r) of
                       Some m \<Rightarrow> m
                     | None \<Rightarrow>
                         ''Python service error '' @ string_of_nat (http_status r) @ '' on ''
                         @ endpoint))
         | None \<Rightarrow>
             if code err = Some ''ECONNABORTED'' then
               Error (''Python service timed out on '' @ endpoint @ ''. Try a shorter audio file.'')
             else AxiosError err))"

text \<open>
  The outcome of one HTTP exchange: the service answered with a body of the expected shape,
  or axios failed. A \<open>call\<close> function posts the file (\<open>pythonClient.post\<close>) and waits; when
  the promise is settled it returns the body, or throws what \<open>handlePythonError\<close> makes of
  the failure. The paths and the model only go into the request.
\<close>

datatype 'a outcome = Replied 'a | Failed axios_error

definition post :: "nat \<Rightarrow> string \<Rightarrow> server \<Rightarrow> server" where
  "post k endpoint s = s\<lparr>journal := journal s @ [Posted k endpoint]\<rparr>"

definition settle :: "nat \<Rightarrow> string \<Rightarrow> server \<Rightarrow> 'a outcome \<Rightarrow> server \<times> (js_error + 'a)" where
  "settle k endpoint s t =
     (s\<lparr>journal := journal s @ [Settled k endpoint]\<rparr>,
      case t of
        Replied d \<Rightarrow> Inr d
      | Failed err \<Rightarrow> Inl (handlePythonError (PYTHON_BASE_URL s) err endpoint))"

definition callEnhance ::
  "nat \<Rightarrow> server \<Rightarrow> string \<Rightarrow> string option \<Rightarrow> enhance_result outcome \<Rightarrow>
   server \<times> (js_error + enhance_result)" where
  "callEnhance k s audioPath model t = settle k ''/enhance'' (post k ''/enhance'' s) t"

definition callExplain ::
  "nat \<Rightarrow> server \<Rightarrow> string \<Rightarrow> string option \<Rightarrow> explain_result outcome \<Rightarrow>
   server \<times> (js_error + explain_result)" where
  "callExplain k s origPath enhPath t = settle k ''/explain'' (post k ''/explain'' s) t"

definition callAQI ::
  "nat \<Rightarrow> server \<Rightarrow> string \<Rightarrow> aqi_result outcome \<Rightarrow> server \<times> (js_error + aqi_result)" where
  "callAQI k s audioPath t = settle k ''/aqi'' (post k ''/aqi'' s) t"

definition callForensics ::
  "nat \<Rightarrow> server \<Rightarrow> string \<Rightarrow> forensics_result outcome \<Rightarrow>
   server \<times> (js_error + forensics_result)" where
  "callForensics k s audioPath t = settle k ''/forensics'' (post k ''/forensics'' s) t"

subsection \<open>The controllers (controllers/audioController.js)\<close>

text \<open>
  A controller takes the number of the request, the server, the request and the answers of
  the outside world, and returns the response it sends (\<open>None\<close> when it returns without
  sending one) and the server afterwards.
\<close>

text \<open>
  The checks that open the four module controllers. First the identifier must be present
  and valid and \<open>Audio.findById\<close> must find the record; the result is the response sent when
  this fails (\<open>None\<close> when the controller returns without sending one), the identifier and
  the loaded document otherwise.
\<close>

definition find_audio :: "server \<Rightarrow> string option \<Rightarrow> reply option + (string \<times> audio)" where
  "find_audio s audioId =
     (case str_or_null audioId of
        None \<Rightarrow> Inl None
      | Some i \<Rightarrow>
          (case validateId i of
             Some r \<Rightarrow> Inl (Some r)
           | None \<Rightarrow>
               (case store s i of
                  None \<Rightarrow> Inl (Some (reply 404 False (Text ''Audio record not found.'')))
                | Some a \<Rightarrow> Inr (i, a))))"

text \<open>Then the original file must be on disk; the result is its path.\<close>

definition original_on_disk :: "server \<Rightarrow> audio \<Rightarrow> reply option + string" where
  "original_on_disk s a =
     (case str_or_null (originalPath a) of
        None \<Rightarrow> Inl (Some (reply 404 False (Text ''Original audio file not found on disk.'')))
      | Some p \<Rightarrow>
          if p \<in> files s then Inr p
          else Inl (Some (reply 404 False (Text ''Original audio file not found on disk.''))))"

definition load_audio ::
  "server \<Rightarrow> string option \<Rightarrow> reply option + (string \<times> audio \<times> string)" where
  "load_audio s audioId =
     (case find_audio s audioId of
        Inl r \<Rightarrow> Inl r
      | Inr (i, a) \<Rightarrow>
          (case original_on_disk s a of
             Inl r \<Rightarrow> Inl r
           | Inr p \<Rightarrow> Inr (i, a, p)))"

text \<open>The \<open>catch\<close> block of a module controller.\<close>

definition module_failed ::
  "nat \<Rightarrow> server \<Rightarrow> string \<Rightarrow> string \<Rightarrow> js_error \<Rightarrow> reply option \<times> server" where
  "module_failed k s m i err =
     (Some (reply 502 False (err_message err)),
      broadcast k s (Progress m ''error'' i (Some (err_message err))))"

text \<open>
  The body of an enhancement request. The default of the destructuring,
  \<open>model = 'CleanUNet'\<close>, replaces a model that the body does not have, not one that is
  \<open>null\<close>.
\<close>

datatype model_field = NoModel | NullModel | Model string

record enhance_body =
  body_audioId :: "string option"
  body_model :: model_field

definition model_of :: "enhance_body \<Rightarrow> string option" where
  "model_of body =
     (case body_model body of
        NoModel \<Rightarrow> Some ''CleanUNet''
      | NullModel \<Rightarrow> None
      | Model m \<Rightarrow> Some m)"

text \<open>\<open>result.enhancedFilePath || result.enhanced_file_path || null\<close>.\<close>

definition reported_path :: "enhance_result \<Rightarrow> string option" where
  "reported_path result =
     (case str_or_null (enhancedFilePath result) of
        Some p \<Rightarrow> Some p
      | None \<Rightarrow> str_or_null (enhanced_file_path result))"

definition enhanceAudio ::
  "nat \<Rightarrow> server \<Rightarrow> enhance_body \<Rightarrow> enhance_result outcome \<Rightarrow> string option \<Rightarrow>
   reply option \<times> server" where
  "enhanceAudio k s body t db =
     (case load_audio s (body_audioId body) of
        Inl r \<Rightarrow> (r, s)
      | Inr (i, a, origPath) \<Rightarrow>
          (let s1 = broadcast k s (Progress ''enhance'' ''processing'' i None) in
           case callEnhance k s1 origPath (model_of body) t of
             (s2, Inl err) \<Rightarrow> module_failed k s2 ''enhance'' i err
           | (s2, Inr result) \<Rightarrow>
               (case markEnhanced db s2 i a (reported_path result) (model_of body)
                       (enh_metrics result) of
                  Inl err \<Rightarrow> module_failed k s2 ''enhance'' i err
                | Inr (s3, a') \<Rightarrow>
                    (Some (reply 200 True (Text ''Audio enhanced successfully.'')),
                     broadcast k s3 (Progress ''enhance'' ''complete'' i None)))))"

definition explainDenoising ::
  "nat \<Rightarrow> server \<Rightarrow> string option \<Rightarrow> explain_result outcome \<Rightarrow> string option \<Rightarrow>
   reply option \<times> server" where
  "explainDenoising k s audioId t db =
     (case load_audio s audioId of
        Inl r \<Rightarrow> (r, s)
      | Inr (i, a, origPath) \<Rightarrow>
          (let s1 = broadcast k s (Progress ''explainability'' ''processing'' i None);
               enhPath =
                 (case str_or_null (enhancedPath a) of
                    None \<Rightarrow> None
                  | Some p \<Rightarrow> if p \<in> files s1 then Some p else None)
           in case callExplain k s1 origPath enhPath t of
                (s2, Inl err) \<Rightarrow> module_failed k s2 ''explainability'' i err
              | (s2, Inr result) \<Rightarrow>
                  (case saveExplainability db s2 i a (Some result) of
                     Inl err \<Rightarrow> module_failed k s2 ''explainability'' i err
                   | Inr (s3, a') \<Rightarrow>
                       (Some (reply 200 True (Text ''Explainability analysis complete.'')),
                        broadcast k s3 (Progress ''explainability'' ''complete'' i None)))))"

definition calculateAQI ::
  "nat \<Rightarrow> server \<Rightarrow> string option \<Rightarrow> aqi_result outcome \<Rightarrow> string option \<Rightarrow>
   reply option \<times> server" where
  "calculateAQI k s audioId t db =
     (case load_audio s audioId of
        Inl r \<Rightarrow> (r, s)
      | Inr (i, a, origPath) \<Rightarrow>
          (let s1 = broadcast k s (Progress ''aqi'' ''processing'' i None) in
           case callAQI k s1 origPath t of
             (s2, Inl err) \<Rightarrow> module_failed k s2 ''aqi'' i err
           | (s2, Inr result) \<Rightarrow>
               (case saveAQI db s2 i a (res_aqiScore result) (Some result) of
                  Inl err \<Rightarrow> module_failed k s2 ''aqi'' i err
                | Inr (s3, a') \<Rightarrow>
                    (Some (reply 200 True (Text ''AQI calculated successfully.'')),
                     broadcast k s3 (Progress ''aqi'' ''complete'' i None)))))"

definition detectTampering ::
  "nat \<Rightarrow> server \<Rightarrow> string option \<Rightarrow> forensics_result outcome \<Rightarrow> string option \<Rightarrow>
   reply option \<times> server" where
  "detectTampering k s audioId t db =
     (case load_audio s audioId of
        Inl r \<Rightarrow> (r, s)
      | Inr (i, a, origPath) \<Rightarrow>
          (let s1 = broadcast k s (Progress ''forensics'' ''processing'' i None) in
           case callForensics k s1 origPath t of
             (s2, Inl err) \<Rightarrow> module_failed k s2 ''forensics'' i err
           | (s2, Inr result) \<Rightarrow>
               (case saveForensics db s2 i a (res_authenticityScore result)
                       (res_tamperingDetected result) (Some result) of
                  Inl err \<Rightarrow> module_failed k s2 ''forensics'' i err
                | Inr (s3, a') \<Rightarrow>
                    (Some (reply 200 True (Text ''Tampering analysis complete.'')),
                     broadcast k s3 (Progress ''forensics'' ''complete'' i None)))))"

text \<open>
  \<open>path.extname\<close> (POSIX): the last component of the path, trailing slashes dropped, from
  its last dot on; empty when there is no dot, when the only dot is the first character, and
  for \<open>..\<close>.
\<close>

definition extname :: "string \<Rightarrow> string" where
  "extname p =
     (let q = rev (dropWhile (\<lambda>c. c = CHR ''/'') (rev p));
          b = rev (takeWhile (\<lambda>c. c \<noteq> CHR ''/'') (rev q));
          e = rev (takeWhile (\<lambda>c. c \<noteq> CHR ''.'') (rev b))
      in if CHR ''.'' \<notin> set b then []
         else if length b = Suc (length e) then []
         else if b = ''..'' then []
         else CHR ''.'' # e)"



record upload_file =
  originalname :: string
  mimetype :: string
  file_path :: string
  file_size :: int


text \<open>
  What ffprobe reports, with the duration, the sample rate and the channels as numbers
  (\<open>None\<close> where the field is absent or does not parse: \<open>parseFloat\<close> and \<open>parseInt\<close> then
  give \<open>NaN\<close>, which \<open>|| null\<close> replaces); \<open>None\<close> for the whole when ffprobe fails. The bit
  rate is tested before it is parsed: it is falsy (absent, 0, empty), or a truthy value that
  \<open>parseInt\<close> reads as a number, or a truthy value that it does not read (such as \<open>N/A\<close>).
\<close>

datatype probed = Falsy | Reads int | Unreadable

record ffprobe_format =
  fmt_duration :: "real option"
  bit_rate :: probed

record ffprobe_stream =
  codec_type :: string
  sample_rate :: "int option"
  st_channels :: "int option"

record ffprobe_data =
  probe_format :: "ffprobe_format option"
  probe_streams :: "ffprobe_stream list option"

text \<open>
  \<open>format.bit_rate ? Math.round(parseInt(format.bit_rate, 10) / 1000) : null\<close>: the rate in
  kbps, or \<open>NaN\<close>, which the document cannot take as a number: the path \<open>bitrate\<close> then fails
  to be cast and stays at its default.
\<close>

definition probed_bit_rate :: "ffprobe_data option \<Rightarrow> probed" where
  "probed_bit_rate probe =
     (case probe of
        None \<Rightarrow> Falsy
      | Some meta \<Rightarrow> (case probe_format meta of None \<Rightarrow> Falsy | Some fm \<Rightarrow> bit_rate fm))"

definition upload_bitrate :: "ffprobe_data option \<Rightarrow> int option" where
  "upload_bitrate probe =
     (case probed_bit_rate probe of
        Reads b \<Rightarrow> Some ((b + 500) div 1000)
      | _ \<Rightarrow> None)"

definition upload_cast :: "ffprobe_data option \<Rightarrow> string list" where
  "upload_cast probe = (if probed_bit_rate probe = Unreadable then [''bitrate''] else [])"

text \<open>
  The document that \<open>uploadAudio\<close> builds from the uploaded file and the metadata:
  \<open>|| {}\<close>, \<open>|| []\<close> and \<open>|| null\<close> replace what ffprobe did not report, the format is the
  lower-case extension without its dot.
\<close>

definition upload_document :: "upload_file \<Rightarrow> ffprobe_data option \<Rightarrow> audio" where
  "upload_document f probe =
     (let fmt = (case probe of None \<Rightarrow> None | Some meta \<Rightarrow> probe_format meta);
          streams =
            (case probe of
               None \<Rightarrow> []
             | Some meta \<Rightarrow> (case probe_streams meta of None \<Rightarrow> [] | Some ss \<Rightarrow> ss));
          audioStream = find (\<lambda>st. codec_type st = ''audio'') streams;
          ext = toLowerCase (remove1 (CHR ''.'') (extname (originalname f)))
      in new_Audio (originalname f) (file_path f) ext
           (real_or_null (case fmt of None \<Rightarrow> None | Some fm \<Rightarrow> fmt_duration fm))
           (int_or_null (case audioStream of None \<Rightarrow> None | Some st \<Rightarrow> sample_rate st))
           (int_or_null (case audioStream of None \<Rightarrow> None | Some st \<Rightarrow> st_channels st))
           (file_size f)
           (upload_bitrate probe))"

text \<open>
  \<open>uploadAudio\<close>: the file is already on disk at \<open>req.file.path\<close>. \<open>oid\<close> is the identifier
  of the new document. When the save throws, the uploaded file is removed again.
\<close>

definition uploadAudio ::
  "server \<Rightarrow> upload_file option \<Rightarrow> ffprobe_data option \<Rightarrow> string \<Rightarrow> string option \<Rightarrow>
   reply option \<times> server" where
  "uploadAudio s file probe oid db =
     (case file of
        None \<Rightarrow> (Some (reply 400 False (Text ''No audio file provided.'')), s)
      | Some f \<Rightarrow>
          (case save db s oid (upload_cast probe) None (upload_document f probe) of
             Inr (s', a') \<Rightarrow>
               (Some (reply 201 True (Text ''File uploaded successfully.'')), s')
           | Inl err \<Rightarrow>
               (Some ((reply 500 False (Text ''Upload processing failed.''))
                        \<lparr>error := Some (err_message err)\<rparr>),
                safeUnlink s (Some (file_path f)))))"

definition getAudio :: "server \<Rightarrow> string \<Rightarrow> reply option \<times> server" where
  "getAudio s i =
     (case validateId i of
        Some r \<Rightarrow> (Some r, s)
      | None \<Rightarrow>
          (case store s i of
             None \<Rightarrow> (Some (reply 404 False (Text ''Audio record not found.'')), s)
           | Some a \<Rightarrow> (Some (reply 200 True (Text [])), s)))"

definition deleteAudio :: "server \<Rightarrow> string \<Rightarrow> reply option \<times> server" where
  "deleteAudio s i =
     (case validateId i of
        Some r \<Rightarrow> (Some r, s)
      | None \<Rightarrow>
          (case store s i of
             None \<Rightarrow> (Some (reply 404 False (Text ''Audio record not found.'')), s)
           | Some a \<Rightarrow>
               (let s1 = safeUnlink s (originalPath a);
                    s2 = safeUnlink s1 (enhancedPath a)
                in (Some (reply 200 True (Text ''Audio file and record deleted successfully.'')),
                    s2\<lparr>store := (store s2)(i := None)\<rparr>))))"

subsection \<open>The routes (routes/audioRoutes.js)\<close>

text \<open>A request, together with the answers the outside world gives while it is served.\<close>

datatype request =
    PostUpload "upload_file option" "ffprobe_data option" string "string option"
  | PostEnhance enhance_body "enhance_result outcome" "string option"
  | PostExplainDenoising "string option" "explain_result outcome" "string option"
  | PostCalculateAqi "string option" "aqi_result outcome" "string option"
  | PostDetectTampering "string option" "forensics_result outcome" "string option"
  | GetAudio string
  | DeleteAudio string

text \<open>The route of a request, for the request numbered \<open>k\<close>.\<close>

fun handle :: "nat \<Rightarrow> server \<Rightarrow> request \<Rightarrow> reply option \<times> server" where
  "handle k s (PostUpload file probe oid db) = uploadAudio s file probe oid db"
| "handle k s (PostEnhance body t db) = enhanceAudio k s body t db"
| "handle k s (PostExplainDenoising audioId t db) = explainDenoising k s audioId t db"
| "handle k s (PostCalculateAqi audioId t db) = calculateAQI k s audioId t db"
| "handle k s (PostDetectTampering audioId t db) = detectTampering k s audioId t db"
| "handle k s (GetAudio i) = getAudio s i"
| "handle k s (DeleteAudio i) = deleteAudio s i"

subsection \<open>What the clients and the network observe\<close>

text \<open>
  \<open>delivered ps s\<close> is the server \<open>s\<close> after the messages \<open>ps\<close> went, in this order, to every
  open client: nothing else of \<open>s\<close> differs.
\<close>

definition deliver :: "payload list \<Rightarrow> client \<Rightarrow> client" where
  "deliver ps c = (if readyState c = 1 then c\<lparr>inbox := inbox c @ ps\<rparr> else c)"

definition delivered :: "payload list \<Rightarrow> server \<Rightarrow> server" where
  "delivered ps s = s\<lparr>wss := map_option (map (deliver ps)) (wss s)\<rparr>"

text \<open>
  \<open>sent k ps s\<close> is the server \<open>s\<close> after request \<open>k\<close> has broadcast the messages \<open>ps\<close>, in
  this order: with a WebSocket server they went to every open client and are in the
  journal; without one nothing happened. \<open>called k endpoint s\<close> is \<open>s\<close> after request \<open>k\<close>
  has posted to the endpoint and the promise was settled. Nothing else of \<open>s\<close> differs.
\<close>

definition sent :: "nat \<Rightarrow> payload list \<Rightarrow> server \<Rightarrow> server" where
  "sent k ps s =
     (case wss s of
        None \<Rightarrow> s
      | Some cs \<Rightarrow>
          s\<lparr>wss := Some (map (deliver ps) cs), journal := journal s @ map (Emit k) ps\<rparr>)"

definition called :: "nat \<Rightarrow> string \<Rightarrow> server \<Rightarrow> server" where
  "called k endpoint s = s\<lparr>journal := journal s @ [Posted k endpoint, Settled k endpoint]\<rparr>"

subsection \<open>Predicates of the claims\<close>






subsection \<open>A sample server\<close>

text \<open>
  A server with one file in the upload directory, an open and a closed client, and (in
  \<open>ex_server\<close>) the record of that file as \<open>uploadAudio\<close> creates it; sample requests and
  service responses.
\<close>

definition ex_oid :: string where
  "ex_oid = ''65f1c0ffee0123456789abcd''"

definition ex_path :: string where
  "ex_path = ''/srv/uploads/Clip_WAV_1700000000000_42.wav''"


definition ex_file :: upload_file where
  "ex_file =
     \<lparr>originalname = ''Clip.WAV'', mimetype = ''audio/wav'', file_path = ex_path,
      file_size = 120000\<rparr>"


definition ex_empty :: server where
  "ex_empty =
     \<lparr>store = Map.empty, files = {ex_path},
      wss = Some [\<lparr>readyState = 1, inbox = []\<rparr>, \<lparr>readyState = 3, inbox = []\<rparr>],
      PYTHON_BASE_URL = ''http://localhost:8000'', journal = []\<rparr>"


definition ex_audio :: audio where
  "ex_audio = new_Audio ''Clip.WAV'' ex_path ''wav'' None None None 120000 None"

definition ex_server :: server where
  "ex_server = ex_empty\<lparr>store := [ex_oid \<mapsto> ex_audio]\<rparr>"




definition ex_body :: enhance_body where
  "ex_body = \<lparr>body_audioId = Some ex_oid, body_model = NoModel\<rparr>"


definition ex_enh :: "string \<Rightarrow> json option \<Rightarrow> enhance_result" where
  "ex_enh q m = \<lparr>enhancedFilePath = Some q, enhanced_file_path = None, enh_metrics = m\<rparr>"


definition ex_timeout :: axios_error where
  "ex_timeout =
     \<lparr>code = Some ''ECONNABORTED'', response = None,
      ax_message = ''timeout of 300000ms exceeded''\<rparr>"

definition ex_reset :: axios_error where
  "ex_reset = \<lparr>code = Some ''ECONNRESET'', response = None, ax_message = ''socket hang up''\<rparr>"

definition ex_upstream :: axios_error where
  "ex_upstream =
     \<lparr>code = Some ''ERR_BAD_RESPONSE'',
      response =
        Some \<lparr>http_status = 500, data_message = Some ''model crashed'', data_error = None\<rparr>,
      ax_message = ''Request failed with status code 500''\<rparr>"







subsection \<open>Runs of the module controllers, interleaved\<close>


fun run_of :: "event \<Rightarrow> nat" where
  "run_of (Emit k p) = k"
| "run_of (Posted k endpoint) = k"
| "run_of (Settled k endpoint) = k"

text \<open>The module of a request, its endpoint and the identifier in its body.\<close>

fun module_of :: "request \<Rightarrow> (string \<times> string \<times> string option) option" where
  "module_of (PostEnhance body t db) = Some (''enhance'', ''/enhance'', body_audioId body)"
| "module_of (PostExplainDenoising audioId t db) =
     Some (''explainability'', ''/explain'', audioId)"
| "module_of (PostCalculateAqi audioId t db) = Some (''aqi'', ''/aqi'', audioId)"
| "module_of (PostDetectTampering audioId t db) = Some (''forensics'', ''/forensics'', audioId)"
| "module_of _ = None"













definition run_events :: "nat \<Rightarrow> event list \<Rightarrow> event list" where
  "run_events k tr = filter (\<lambda>e. run_of e = k) tr"

definition emitted :: "event list \<Rightarrow> payload list" where
  "emitted evs = concat (map (\<lambda>e. case e of Emit k p \<Rightarrow> [p] | _ \<Rightarrow> []) evs)"




text \<open>
  The response of a run that went to the service: 200 or 502. A run that fails an opening
  check responds 400 or 404, or nothing.
\<close>

definition answered :: "reply option \<Rightarrow> bool" where
  "answered r = (case r of None \<Rightarrow> False | Some rp \<Rightarrow> status rp = 200 \<or> status rp = 502)"






section \<open>Properties\<close>

subsection \<open>Broadcasting and calling\<close>

lemma broadcast_fields [simp]:
  "store (broadcast k s p) = store s"
  "files (broadcast k s p) = files s"
  "PYTHON_BASE_URL (broadcast k s p) = PYTHON_BASE_URL s"
  by (simp_all add: broadcast_def split: option.splits)

lemma deliver_deliver: "deliver qs (deliver ps c) = deliver (ps @ qs) c"
  by (simp add: deliver_def)


lemma send_if_open_deliver: "send_if_open p = deliver [p]"
  by (rule ext) (simp add: send_if_open_def deliver_def)

lemma broadcast_sent: "broadcast k s p = sent k [p] s"
  by (cases "wss s") (simp_all add: broadcast_def sent_def send_if_open_deliver)

lemma sent_sent: "sent k qs (sent k ps s) = sent k (ps @ qs) s"
  by (cases "wss s") (simp_all add: sent_def deliver_deliver comp_def)

lemma delivered_fields [simp]:
  "store (delivered ps s) = store s"
  "files (delivered ps s) = files s"
  "PYTHON_BASE_URL (delivered ps s) = PYTHON_BASE_URL s"
  "journal (delivered ps s) = journal s"
  by (simp_all add: delivered_def)

lemma sent_fields [simp]:
  "store (sent k ps s) = store s"
  "files (sent k ps s) = files s"
  "PYTHON_BASE_URL (sent k ps s) = PYTHON_BASE_URL s"
  "wss (sent k ps s) = wss (delivered ps s)"
  by (simp_all add: sent_def delivered_def split: option.splits)

lemma wss_sent_called:
  "wss (sent k qs (called k endpoint (sent k ps s))) = wss (delivered (ps @ qs) s)"
  by (cases "wss s") (simp_all add: sent_def called_def delivered_def deliver_deliver comp_def)

lemma journal_sent:
  "journal (sent k ps s) = (if wss s = None then journal s else journal s @ map (Emit k) ps)"
  by (simp add: sent_def split: option.splits)

lemma called_fields [simp]:
  "store (called k endpoint s) = store s"
  "files (called k endpoint s) = files s"
  "PYTHON_BASE_URL (called k endpoint s) = PYTHON_BASE_URL s"
  "wss (called k endpoint s) = wss s"
  "journal (called k endpoint s) = journal s @ [Posted k endpoint, Settled k endpoint]"
  by (simp_all add: called_def)


lemma settle_post:
  "settle k endpoint (post k endpoint s) t =
     (called k endpoint s,
      case t of
        Replied d \<Rightarrow> Inr d
      | Failed err \<Rightarrow> Inl (handlePythonError (PYTHON_BASE_URL s) err endpoint))"
  by (cases t) (simp_all add: settle_def post_def called_def)

subsection \<open>Saving\<close>

lemma keep_same [simp]: "keep l n l = n"
  by (simp add: keep_def)

lemma updated_same [simp]:
  "filename (updated a y a) = filename y"
  "originalPath (updated a y a) = originalPath y"
  "enhancedPath (updated a y a) = enhancedPath y"
  "format (updated a y a) = format y"
  "duration (updated a y a) = duration y"
  "sampleRate (updated a y a) = sampleRate y"
  "channels (updated a y a) = channels y"
  "fileSize (updated a y a) = fileSize y"
  "bitrate (updated a y a) = bitrate y"
  "processing (updated a y a) = processing y"
  by (simp_all add: updated_def)

lemma updated_same_results [simp]:
  "enhancement (results (updated a y a)) =
     keep_mixed minimize (enhancement (results a)) (enhancement (results y))
       (enhancement (results a))"
  "explainability (results (updated a y a)) =
     keep_mixed minimize_explain (explainability (results a)) (explainability (results y))
       (explainability (results a))"
  "aqi (results (updated a y a)) =
     keep_mixed minimize_aqi (aqi (results a)) (aqi (results y)) (aqi (results a))"
  "forensics (results (updated a y a)) =
     keep_mixed minimize_forensics (forensics (results a)) (forensics (results y))
       (forensics (results a))"
  by (simp_all add: updated_def)

lemma keep_mixed_unchanged [simp]: "keep_mixed mini l l c = c"
  by (simp add: keep_mixed_def)

lemma keep_mixed_Some:
  "mini x \<noteq> None \<Longrightarrow> keep_mixed mini l (Some x) l \<noteq> None"
  by (auto simp: keep_mixed_def)

lemma keep_mixed_None [simp]: "keep_mixed mini l None l = None"
  by (auto simp: keep_mixed_def)

lemma inserted_fields [simp]:
  "filename (inserted a) = filename a"
  "originalPath (inserted a) = originalPath a"
  "enhancedPath (inserted a) = enhancedPath a"
  "format (inserted a) = format a"
  "processing (inserted a) = processing a"
  by (simp_all add: inserted_def)

lemma inserted_default:
  "results a = results_default \<Longrightarrow> inserted a = a"
  by (simp add: inserted_def results_default_def minimize_field_def)



lemma save_new_Inr:
  "save db s i cast None a = Inr (s', a') \<Longrightarrow>
     cast = [] \<and> validate a = [] \<and> a' = pre_save a \<and> store s i = None
     \<and> s' = s\<lparr>store := (store s)(i \<mapsto> inserted a')\<rparr>"
  by (auto simp: save_def Let_def split: if_splits option.splits)


lemma pre_save_fields [simp]:
  "processing (pre_save a) = processing a"
  "results (pre_save a) = results a"
  "enhancedPath (pre_save a) = enhancedPath a"
  "originalPath (pre_save a) = originalPath a"
  by (simp_all add: pre_save_def split: option.splits)





lemma upload_document_fields:
  "processing (upload_document f probe) = processing_default"
  "results (upload_document f probe) = results_default"
  "enhancedPath (upload_document f probe) = None"
  by (simp_all add: upload_document_def new_Audio_def Let_def)



subsection \<open>The sample server\<close>

lemma isValid_ex_oid: "isValid ex_oid"
  by (simp add: isValid_def ex_oid_def is_hex_def)

lemma ex_nonempty: "ex_oid \<noteq> []" "ex_path \<noteq> []"
  by (simp_all add: ex_oid_def ex_path_def)

lemma trim_ex_path: "trim ex_path = ex_path"
  by (simp add: trim_def ex_path_def is_space_def)

lemma trim_no_break_space:
  "trim (CHR 0xA0 # '' /srv/out.wav'' @ [CHR 0x09, CHR 0xA0]) = ''/srv/out.wav''"
  by (simp add: trim_def is_space_def)

lemma ex_audio_eq:
  "ex_audio =
     \<lparr>filename = ''Clip.WAV'', originalPath = Some ex_path, enhancedPath = None,
      format = Some ''wav'', duration = None, sampleRate = None, channels = None,
      fileSize = Some 120000, bitrate = None,
      processing = processing_default, results = results_default\<rparr>"
  by (simp add: ex_audio_def new_Audio_def trim_ex_path) (simp add: trim_def is_space_def)

lemma pre_save_ex_audio:
  "pre_save (ex_audio\<lparr>enhancedPath := e, processing := p, results := r\<rparr>)
   = ex_audio\<lparr>enhancedPath := e, processing := p, results := r\<rparr>"
  by (simp add: ex_audio_eq pre_save_def toLowerCase_def toLowerChar_def is_upper_def)

lemma ext_ex: "toLowerCase (remove1 (CHR ''.'') (extname ''Clip.WAV'')) = ''wav''"
  by code_simp

lemma upload_document_ex: "upload_document ex_file None = ex_audio"
  by (simp add: upload_document_def ex_file_def Let_def int_or_null_def real_or_null_def
      ext_ex ex_audio_def upload_bitrate_def probed_bit_rate_def)

lemma validate_ex_audio:
  "validate (ex_audio\<lparr>enhancedPath := e, processing := p, results := r\<rparr>) = validate_processing p"
  by (simp add: ex_audio_eq validate_def check_def format_values_def)

lemma upload_ex:
  "uploadAudio ex_empty (Some ex_file) None ex_oid None =
     (Some (reply 201 True (Text ''File uploaded successfully.'')), ex_server)"
proof -
  have "validate ex_audio = []"
    using validate_ex_audio [where e = None and p = processing_default and r = results_default]
    by (simp add: ex_audio_eq validate_processing_def check_def processing_default_def)
  moreover have "pre_save ex_audio = ex_audio"
    using pre_save_ex_audio [where e = None and p = processing_default and r = results_default]
    by (simp add: ex_audio_eq)
  moreover have "inserted ex_audio = ex_audio"
    by (rule inserted_default) (simp add: ex_audio_eq)
  ultimately show ?thesis
    by (simp add: uploadAudio_def upload_document_ex save_def ex_server_def ex_empty_def
        upload_cast_def probed_bit_rate_def)
qed

lemma load_ex: "load_audio ex_server (Some ex_oid) = Inr (ex_oid, ex_audio, ex_path)"
  by (simp add: load_audio_def find_audio_def original_on_disk_def str_or_null_def
      validateId_def isValid_ex_oid ex_nonempty ex_server_def ex_empty_def ex_audio_eq)

lemma ex_server_fields:
  "store ex_server = [ex_oid \<mapsto> ex_audio]" "files ex_server = {ex_path}"
  "wss ex_server = Some [\<lparr>readyState = 1, inbox = []\<rparr>, \<lparr>readyState = 3, inbox = []\<rparr>]"
  "journal ex_server = []" "PYTHON_BASE_URL ex_server = ''http://localhost:8000''"
  "originalPath ex_audio = Some ex_path" "enhancedPath ex_audio = None"
  "processing ex_audio = processing_default" "results ex_audio = results_default"
  by (simp_all add: ex_server_def ex_empty_def ex_audio_eq)
subsection \<open>The module controllers\<close>






lemma module_Failed:
  assumes "load_audio s audioId = Inr (i, a, p)"
  shows "enhanceAudio k s \<lparr>body_audioId = audioId, body_model = m\<rparr> (Failed e) db =
           module_failed k
             (called k ''/enhance'' (sent k [Progress ''enhance'' ''processing'' i None] s))
             ''enhance'' i (handlePythonError (PYTHON_BASE_URL s) e ''/enhance'')"
    and "explainDenoising k s audioId (Failed e2) db =
           module_failed k
             (called k ''/explain'' (sent k [Progress ''explainability'' ''processing'' i None] s))
             ''explainability'' i (handlePythonError (PYTHON_BASE_URL s) e2 ''/explain'')"
    and "calculateAQI k s audioId (Failed e3) db =
           module_failed k (called k ''/aqi'' (sent k [Progress ''aqi'' ''processing'' i None] s))
             ''aqi'' i (handlePythonError (PYTHON_BASE_URL s) e3 ''/aqi'')"
    and "detectTampering k s audioId (Failed e4) db =
           module_failed k
             (called k ''/forensics'' (sent k [Progress ''forensics'' ''processing'' i None] s))
             ''forensics'' i (handlePythonError (PYTHON_BASE_URL s) e4 ''/forensics'')"
  using assms
  by (simp_all add: enhanceAudio_def explainDenoising_def calculateAQI_def detectTampering_def
      callEnhance_def callExplain_def callAQI_def callForensics_def broadcast_sent settle_post)

lemma module_failed_sent:
  "module_failed k s m i err =
     (Some (reply 502 False (err_message err)),
      sent k [Progress m ''error'' i (Some (err_message err))] s)"
  by (simp add: module_failed_def broadcast_sent)

lemma safeUnlink_fields [simp]:
  "store (safeUnlink s p) = store s"
  "wss (safeUnlink s p) = wss s"
  "journal (safeUnlink s p) = journal s"
  by (simp_all add: safeUnlink_def split: option.splits)


subsection \<open>Sample runs\<close>




text \<open>A bit rate that \<open>parseInt\<close> does not read: the save fails and the file is removed.\<close>

lemma upload_unreadable_bit_rate:
  "uploadAudio ex_empty (Some ex_file)
     (Some \<lparr>probe_format = Some \<lparr>fmt_duration = Some 3, bit_rate = Unreadable\<rparr>,
            probe_streams = None\<rparr>) ex_oid None =
     (Some ((reply 500 False (Text ''Upload processing failed.''))
              \<lparr>error := Some (MessageOf (ValidationError [''bitrate'']))\<rparr>),
      ex_empty\<lparr>files := {}\<rparr>)"
proof -
  let ?probe = "Some \<lparr>probe_format = Some \<lparr>fmt_duration = Some 3, bit_rate = Unreadable\<rparr>,
                      probe_streams = None\<rparr>"
  have "upload_document ex_file ?probe = ex_audio\<lparr>duration := Some 3\<rparr>"
    by (simp add: upload_document_def ex_file_def Let_def int_or_null_def real_or_null_def
        ext_ex ex_audio_def upload_bitrate_def probed_bit_rate_def new_Audio_def)
  moreover have "validate (ex_audio\<lparr>duration := Some 3\<rparr>) = []"
    by (simp add: ex_audio_eq validate_def check_def format_values_def validate_processing_def
        processing_default_def)
  moreover have "upload_cast ?probe = [''bitrate'']"
    by (simp add: upload_cast_def probed_bit_rate_def)
  ultimately show ?thesis
    by (simp add: uploadAudio_def save_def safeUnlink_def str_or_null_def ex_file_def
        ex_nonempty ex_empty_def)
qed

subsection \<open>The sample sequence\<close>







section \<open>The claims\<close>

subsection \<open>C1: scores out of range\<close>







subsection \<open>C2: headline fields and results entries\<close>


















subsection \<open>C3: the enhanced path\<close>






subsection \<open>C4: a run whose service call fails\<close>

lemma journal_failed_run:
  "wss s \<noteq> None \<Longrightarrow>
     journal (sent k [q] (called k endpoint (sent k [p] s))) =
       journal s @ [Emit k p, Posted k endpoint, Settled k endpoint, Emit k q]"
  by (auto simp: sent_def called_def split: option.splits)

lemma handlePythonError_cases:
  "(code e \<noteq> Some ''ECONNREFUSED'' \<and> response e = None \<and> code e \<noteq> Some ''ECONNABORTED''
      \<longrightarrow> handlePythonError base e endpoint = AxiosError e)
   \<and> (code e = Some ''ECONNREFUSED'' \<or> response e \<noteq> None \<or> code e = Some ''ECONNABORTED''
      \<longrightarrow> (\<exists>m. handlePythonError base e endpoint = Error m))"
  by (auto simp: handlePythonError_def split: option.splits)

text \<open>
  Claim C4, as amended. When the call to the Python service fails in a run of any of the
  four modules (a run that passed the opening checks), the controller does not throw: it
  answers 502 with the message of the error that \<open>handlePythonError\<close> threw. What was sent
  for the run is exactly \<open>processing\<close>, the POST and its settling, and \<open>error\<close> with that
  message, and the two messages went to every open client. The store, and with it the
  processing and results fields of every record, and the files are as before. The error is
  an \<open>Error\<close> that the gateway made when the connection was refused, when the service
  answered, and when the call timed out; for any other failure it is the error of axios
  itself, thrown again unchanged.
\<close>

theorem gateway_failure_reported:
  assumes "load_audio s audioId = Inr (i, a, p)"
  shows "enhanceAudio k s \<lparr>body_audioId = audioId, body_model = m\<rparr> (Failed e) db =
           (Some (reply 502 False
              (err_message (handlePythonError (PYTHON_BASE_URL s) e ''/enhance''))),
            sent k
              [Progress ''enhance'' ''error'' i
                 (Some (err_message (handlePythonError (PYTHON_BASE_URL s) e ''/enhance'')))]
              (called k ''/enhance'' (sent k [Progress ''enhance'' ''processing'' i None] s)))
       \<and> explainDenoising k s audioId (Failed e) db =
           (Some (reply 502 False
              (err_message (handlePythonError (PYTHON_BASE_URL s) e ''/explain''))),
            sent k
              [Progress ''explainability'' ''error'' i
                 (Some (err_message (handlePythonError (PYTHON_BASE_URL s) e ''/explain'')))]
              (called k ''/explain''
                 (sent k [Progress ''explainability'' ''processing'' i None] s)))
       \<and> calculateAQI k s audioId (Failed e) db =
           (Some (reply 502 False
              (err_message (handlePythonError (PYTHON_BASE_URL s) e ''/aqi''))),
            sent k
              [Progress ''aqi'' ''error'' i
                 (Some (err_message (handlePythonError (PYTHON_BASE_URL s) e ''/aqi'')))]
              (called k ''/aqi'' (sent k [Progress ''aqi'' ''processing'' i None] s)))
       \<and> detectTampering k s audioId (Failed e) db =
           (Some (reply 502 False
              (err_message (handlePythonError (PYTHON_BASE_URL s) e ''/forensics''))),
            sent k
              [Progress ''forensics'' ''error'' i
                 (Some (err_message (handlePythonError (PYTHON_BASE_URL s) e ''/forensics'')))]
              (called k ''/forensics'' (sent k [Progress ''forensics'' ''processing'' i None] s)))
       \<and> store (sent k [q'] (called k endpoint (sent k [p'] s))) = store s
       \<and> files (sent k [q'] (called k endpoint (sent k [p'] s))) = files s
       \<and> wss (sent k [q'] (called k endpoint (sent k [p'] s))) = wss (delivered [p', q'] s)
       \<and> (wss s \<noteq> None \<longrightarrow>
            journal (sent k [q'] (called k endpoint (sent k [p'] s))) =
              journal s @ [Emit k p', Posted k endpoint, Settled k endpoint, Emit k q'])
       \<and> (code e \<noteq> Some ''ECONNREFUSED'' \<and> response e = None
            \<and> code e \<noteq> Some ''ECONNABORTED''
          \<longrightarrow> handlePythonError (PYTHON_BASE_URL s) e endpoint = AxiosError e)
       \<and> (code e = Some ''ECONNREFUSED'' \<or> response e \<noteq> None
            \<or> code e = Some ''ECONNABORTED''
          \<longrightarrow> (\<exists>msg. handlePythonError (PYTHON_BASE_URL s) e endpoint = Error msg))"
proof -
  have "wss (sent k [q'] (called k endpoint (sent k [p'] s))) = wss (delivered [p', q'] s)"
    using wss_sent_called [of k "[q']" endpoint "[p']" s] by simp
  then show ?thesis
    using module_Failed [OF assms, of k]
      handlePythonError_cases [of e "PYTHON_BASE_URL s" endpoint]
      journal_failed_run [of s k q' endpoint p']
    by (simp add: module_failed_sent)
qed

theorem gateway_failure_reported_witness:
  "load_audio ex_server (Some ex_oid) = Inr (ex_oid, ex_audio, ex_path)
   \<and> wss ex_server \<noteq> None
   \<and> code ex_timeout = Some ''ECONNABORTED''
   \<and> detectTampering 0 ex_server (Some ex_oid) (Failed ex_timeout) None =
       (Some (reply 502 False
          (Text ''Python service timed out on /forensics. Try a shorter audio file.'')),
        ex_server
          \<lparr>wss :=
             Some [\<lparr>readyState = 1,
                    inbox =
                      [Progress ''forensics'' ''processing'' ex_oid None,
                       Progress ''forensics'' ''error'' ex_oid
                         (Some (Text
                            ''Python service timed out on /forensics. Try a shorter audio file.''))]\<rparr>,
                   \<lparr>readyState = 3, inbox = []\<rparr>],
           journal :=
             [Emit 0 (Progress ''forensics'' ''processing'' ex_oid None),
              Posted 0 ''/forensics'', Settled 0 ''/forensics'',
              Emit 0 (Progress ''forensics'' ''error'' ex_oid
                (Some (Text
                   ''Python service timed out on /forensics. Try a shorter audio file.'')))]\<rparr>)"
proof -
  have "handlePythonError (PYTHON_BASE_URL ex_server) ex_timeout ''/forensics'' =
      Error ''Python service timed out on /forensics. Try a shorter audio file.''"
    by (simp add: handlePythonError_def ex_timeout_def)
  moreover have "wss ex_server \<noteq> None" "code ex_timeout = Some ''ECONNABORTED''"
    by (simp_all add: ex_server_fields ex_timeout_def)
  ultimately show ?thesis
    using gateway_failure_reported [OF load_ex, where k = 0 and e = ex_timeout and db = None]
      load_ex
    by (simp add: sent_def called_def deliver_def ex_server_def ex_empty_def)
qed

text \<open>
  Claim C4 fails as stated: the connection to the service is reset (no response, a code
  that is neither \<open>ECONNREFUSED\<close> nor \<open>ECONNABORTED\<close>); what \<open>handlePythonError\<close> throws is
  the error of axios as it came, not an error of the gateway, and the controller answers
  502 with the message of that error instead of throwing.
\<close>

theorem transport_error_passed_through:
  "handlePythonError (PYTHON_BASE_URL ex_server) ex_reset ''/forensics'' = AxiosError ex_reset
   \<and> fst (detectTampering 0 ex_server (Some ex_oid) (Failed ex_reset) None) =
       Some (reply 502 False (MessageOf (AxiosError ex_reset)))"
proof -
  have "handlePythonError (PYTHON_BASE_URL ex_server) ex_reset ''/forensics'' =
      AxiosError ex_reset"
    by (simp add: handlePythonError_def ex_reset_def)
  then show ?thesis
    by (simp add: module_Failed(4) [OF load_ex] module_failed_sent)
qed

subsection \<open>C5: the order of what a run sends\<close>

lemma run_events_append [simp]: "run_events k (xs @ ys) = run_events k xs @ run_events k ys"
  by (simp add: run_events_def)



lemma emitted_append [simp]: "emitted (xs @ ys) = emitted xs @ emitted ys"
  by (simp add: emitted_def)

lemma emitted_simps [simp]:
  "emitted [] = []"
  "emitted (Emit k p # evs) = p # emitted evs"
  "emitted (Posted k endpoint # evs) = emitted evs"
  "emitted (Settled k endpoint # evs) = emitted evs"
  by (simp_all add: emitted_def)

lemma deliver_Nil [simp]: "deliver [] = id"
  by (rule ext) (simp add: deliver_def)

lemma delivered_Nil [simp]: "delivered [] s = s"
  by (cases "wss s") (simp_all add: delivered_def)




lemma post_effect [simp]:
  "journal (post k endpoint s) = journal s @ [Posted k endpoint]"
  "wss (post k endpoint s) = wss s"
  "store (post k endpoint s) = store s"
  "files (post k endpoint s) = files s"
  by (simp_all add: post_def)





lemma not_answered [simp]:
  "\<not> answered None"
  "\<not> answered (Some (reply 400 ok m))"
  "\<not> answered (Some (reply 404 ok m))"
  "answered (Some (reply 200 ok m))"
  "answered (Some (reply 502 ok m))"
  by (simp_all add: answered_def reply_def)











text \<open>The other requests send nothing and leave the clients as they are.\<close>

lemma other_requests_silent:
  assumes "module_of r = None"
  shows "journal (snd (handle k s r)) = journal s \<and> wss (snd (handle k s r)) = wss s"
proof (cases r)
  case (PostUpload fl probe oid db)
  then show ?thesis
    by (auto simp: uploadAudio_def dest!: save_new_Inr split: option.splits sum.splits)
next
  case (GetAudio i)
  then show ?thesis
    by (simp add: getAudio_def split: option.splits)
next
  case (DeleteAudio i)
  then show ?thesis
    by (simp add: deleteAudio_def Let_def split: option.splits)
qed (use assms in simp_all)

subsection \<open>The pieces are those of the controllers\<close>







subsection \<open>The sample schedule\<close>




subsection \<open>C6: the original file is gone\<close>

text \<open>
  Claim C6. When \<open>enhanceAudio\<close> is called for a record whose original file is not on disk
  (or whose \<open>originalPath\<close> is null), it answers 404 with
  \<open>Original audio file not found on disk.\<close>, whatever the service would have answered, and
  the server is exactly as before: nothing was sent (no message to a client, no call of
  the service), and the store is unchanged.
\<close>

theorem enhance_source_missing:
  assumes "body_audioId body = Some i" and "isValid i"
    and "store s i = Some a"
    and "\<forall>p. originalPath a = Some p \<longrightarrow> p \<notin> files s"
  shows "enhanceAudio k s body t db =
           (Some (reply 404 False (Text ''Original audio file not found on disk.'')), s)"
proof -
  from assms(2) have "i \<noteq> []"
    by (auto simp: isValid_def)
  with assms show ?thesis
    by (simp add: enhanceAudio_def load_audio_def find_audio_def original_on_disk_def
        str_or_null_def validateId_def split: option.splits)
qed

theorem enhance_source_missing_witness:
  "body_audioId ex_body = Some ex_oid \<and> isValid ex_oid
   \<and> store (ex_server\<lparr>files := {}\<rparr>) ex_oid = Some ex_audio
   \<and> originalPath ex_audio = Some ex_path \<and> ex_path \<notin> files (ex_server\<lparr>files := {}\<rparr>)
   \<and> enhanceAudio 0 (ex_server\<lparr>files := {}\<rparr>) ex_body
        (Replied (ex_enh ''/srv/uploads/Clip_enhanced.wav'' None)) None =
       (Some (reply 404 False (Text ''Original audio file not found on disk.'')),
        ex_server\<lparr>files := {}\<rparr>)"
proof -
  have h1: "body_audioId ex_body = Some ex_oid"
    by (simp add: ex_body_def)
  have h4: "store (ex_server\<lparr>files := {}\<rparr>) ex_oid = Some ex_audio"
    by (simp add: ex_server_fields)
  have h5: "\<forall>p. originalPath ex_audio = Some p \<longrightarrow> p \<notin> files (ex_server\<lparr>files := {}\<rparr>)"
    by simp
  show ?thesis
    using enhance_source_missing [OF h1 isValid_ex_oid h4 h5, of 0] h1 isValid_ex_oid h4
    by (simp add: ex_audio_eq)
qed

subsection \<open>C7: the errors of the gateway\<close>

lemma sublist_mid: "sublist x (a @ x @ b)"
  by (auto simp: sublist_def)

lemma sublist_mid2: "sublist (x @ y) (a @ x @ y @ b)"
  using sublist_mid [of "x @ y" a b] by simp

text \<open>
  Claim C7, as amended. The gateway has no error classes: every failure it normalizes is a
  plain \<open>Error\<close>, told apart by its message only. A refused connection gives a message that
  contains the base URL followed by the endpoint. A response of the service with an error
  status gives the \<open>message\<close> of its body when that is non-empty, else the \<open>error\<close> of its
  body when that is non-empty, else a message that contains the status and the endpoint; so
  the status is carried only when the body brings no text. A timeout gives a message that
  contains the endpoint; for a forensics run the controller answers 502 with a message that
  contains \<open>forensics\<close>, after it has sent \<open>processing\<close>, called the service and sent
  \<open>error\<close> with that message.
\<close>

theorem gateway_errors_by_message:
  "(code e = Some ''ECONNREFUSED'' \<longrightarrow>
      (\<exists>m. handlePythonError base e endpoint = Error m \<and> sublist (base @ endpoint) m))
   \<and> (code e \<noteq> Some ''ECONNREFUSED'' \<and> response e = Some r \<longrightarrow>
      (\<exists>m. handlePythonError base e endpoint = Error m
         \<and> (data_message r = Some m \<and> m \<noteq> []
            \<or> str_or_null (data_message r) = None \<and> data_error r = Some m \<and> m \<noteq> []
            \<or> str_or_null (data_message r) = None \<and> str_or_null (data_error r) = None
              \<and> sublist (string_of_nat (http_status r)) m \<and> sublist endpoint m)))
   \<and> (code e = Some ''ECONNABORTED'' \<and> response e = None \<longrightarrow>
      (\<exists>m. handlePythonError base e endpoint = Error m \<and> sublist endpoint m))
   \<and> (load_audio s audioId = Inr (i, a, p) \<and> code e = Some ''ECONNABORTED''
        \<and> response e = None \<longrightarrow>
      (\<exists>m. detectTampering k s audioId (Failed e) db =
              (Some (reply 502 False (Text m)),
               sent k [Progress ''forensics'' ''error'' i (Some (Text m))]
                 (called k ''/forensics''
                    (sent k [Progress ''forensics'' ''processing'' i None] s)))
           \<and> sublist ''forensics'' m))"
proof (intro conjI impI)
  assume "code e = Some ''ECONNREFUSED''"
  then show "\<exists>m. handlePythonError base e endpoint = Error m \<and> sublist (base @ endpoint) m"
    using sublist_mid2 [of base endpoint "''Python service is not reachable at ''"
        "''. Is it running?''"]
    by (simp add: handlePythonError_def)
next
  assume "code e \<noteq> Some ''ECONNREFUSED'' \<and> response e = Some r"
  then show "\<exists>m. handlePythonError base e endpoint = Error m
         \<and> (data_message r = Some m \<and> m \<noteq> []
            \<or> str_or_null (data_message r) = None \<and> data_error r = Some m \<and> m \<noteq> []
            \<or> str_or_null (data_message r) = None \<and> str_or_null (data_error r) = None
              \<and> sublist (string_of_nat (http_status r)) m \<and> sublist endpoint m)"
    using sublist_mid [of "string_of_nat (http_status r)" "''Python service error ''"
        "'' on '' @ endpoint"]
      sublist_mid [of endpoint
        "''Python service error '' @ string_of_nat (http_status r) @ '' on ''" "[]"]
    by (auto simp: handlePythonError_def str_or_null_def split: option.splits if_splits)
next
  assume "code e = Some ''ECONNABORTED'' \<and> response e = None"
  then show "\<exists>m. handlePythonError base e endpoint = Error m \<and> sublist endpoint m"
    using sublist_mid [of endpoint "''Python service timed out on ''"
        "''. Try a shorter audio file.''"]
    by (simp add: handlePythonError_def)
next
  assume h: "load_audio s audioId = Inr (i, a, p) \<and> code e = Some ''ECONNABORTED''
    \<and> response e = None"
  then have "handlePythonError (PYTHON_BASE_URL s) e ''/forensics'' =
      Error (''Python service timed out on /'' @ ''forensics'' @ ''. Try a shorter audio file.'')"
    by (simp add: handlePythonError_def)
  moreover have "sublist ''forensics''
     (''Python service timed out on /'' @ ''forensics'' @ ''. Try a shorter audio file.'')"
    by (rule sublist_mid)
  ultimately show "\<exists>m. detectTampering k s audioId (Failed e) db =
              (Some (reply 502 False (Text m)),
               sent k [Progress ''forensics'' ''error'' i (Some (Text m))]
                 (called k ''/forensics''
                    (sent k [Progress ''forensics'' ''processing'' i None] s)))
           \<and> sublist ''forensics'' m"
    using h module_Failed(4) [of s audioId i a p k e db]
    by (simp add: module_failed_sent) blast
qed

theorem gateway_errors_by_message_witness:
  "code ex_timeout = Some ''ECONNABORTED'' \<and> response ex_timeout = None
   \<and> load_audio ex_server (Some ex_oid) = Inr (ex_oid, ex_audio, ex_path)
   \<and> code ex_upstream \<noteq> Some ''ECONNREFUSED''
   \<and> response ex_upstream =
       Some \<lparr>http_status = 500, data_message = Some ''model crashed'', data_error = None\<rparr>
   \<and> (\<exists>m. detectTampering 0 ex_server (Some ex_oid) (Failed ex_timeout) None =
              (Some (reply 502 False (Text m)),
               sent 0 [Progress ''forensics'' ''error'' ex_oid (Some (Text m))]
                 (called 0 ''/forensics''
                    (sent 0 [Progress ''forensics'' ''processing'' ex_oid None] ex_server)))
           \<and> sublist ''forensics'' m)
   \<and> (\<exists>m. handlePythonError ''http://localhost:8000'' ex_upstream ''/enhance'' = Error m
           \<and> m = ''model crashed'')"
proof -
  have t: "code ex_timeout = Some ''ECONNABORTED''" "response ex_timeout = None"
    by (simp_all add: ex_timeout_def)
  have u: "code ex_upstream \<noteq> Some ''ECONNREFUSED''"
    "response ex_upstream =
       Some \<lparr>http_status = 500, data_message = Some ''model crashed'', data_error = None\<rparr>"
    by (simp_all add: ex_upstream_def)
  from gateway_errors_by_message
    [where s = ex_server and audioId = "Some ex_oid" and i = ex_oid and a = ex_audio
       and p = ex_path and e = ex_timeout and db = None and k = 0,
     THEN conjunct2, THEN conjunct2, THEN conjunct2]
    load_ex t
  have 1: "\<exists>m. detectTampering 0 ex_server (Some ex_oid) (Failed ex_timeout) None =
              (Some (reply 502 False (Text m)),
               sent 0 [Progress ''forensics'' ''error'' ex_oid (Some (Text m))]
                 (called 0 ''/forensics''
                    (sent 0 [Progress ''forensics'' ''processing'' ex_oid None] ex_server)))
           \<and> sublist ''forensics'' m"
    by simp
  from gateway_errors_by_message
    [where e = ex_upstream and base = "''http://localhost:8000''" and endpoint = "''/enhance''"
       and r = "\<lparr>http_status = 500, data_message = Some ''model crashed'',
                 data_error = None\<rparr>",
     THEN conjunct2, THEN conjunct1] u
  have 2: "\<exists>m. handlePythonError ''http://localhost:8000'' ex_upstream ''/enhance'' = Error m
           \<and> m = ''model crashed''"
    by (simp add: str_or_null_def)
  show ?thesis
    using 1 2 t u load_ex by simp
qed

text \<open>
  Claim C7 fails as stated: the service answers 500 with a message in its body; the error
  that reaches the caller is a plain \<open>Error\<close> with that message, and the status is nowhere in
  it.
\<close>

theorem upstream_error_drops_status:
  "handlePythonError ''http://localhost:8000'' ex_upstream ''/enhance'' = Error ''model crashed''
   \<and> \<not> sublist (string_of_nat 500) ''model crashed''"
proof -
  have "string_of_nat 500 = ''500''"
    by code_simp
  moreover have "\<not> sublist ''500'' ''model crashed''"
    by code_simp
  ultimately show ?thesis
    by (simp add: handlePythonError_def ex_upstream_def str_or_null_def)
qed

subsection \<open>C8: a registration that fails\<close>




subsection \<open>C9: a new record starts blank\<close>

text \<open>
  Claim C9. For every upload that \<open>uploadAudio\<close> answers with 201, the record stored under
  the new identifier has all processing flags false or null (\<open>enhanced = false\<close>;
  \<open>enhancementModel\<close>, \<open>aqiScore\<close>, \<open>authenticityScore\<close>, \<open>tamperingDetected\<close> null) and all
  four results entries (\<open>enhancement\<close>, \<open>explainability\<close>, \<open>aqi\<close>, \<open>forensics\<close>) null.
\<close>

theorem upload_starts_blank:
  assumes "uploadAudio s fl probe oid db = (Some r, s')" and "status r = 201"
  shows "map_option processing (store s' oid) =
           Some \<lparr>enhanced = False, enhancementModel = None, aqiScore = None,
                 authenticityScore = None, tamperingDetected = None\<rparr>
       \<and> map_option results (store s' oid) =
           Some \<lparr>enhancement = None, explainability = None, aqi = None, forensics = None\<rparr>"
proof (cases fl)
  case None
  with assms show ?thesis
    by (auto simp: uploadAudio_def reply_def)
next
  case (Some f)
  show ?thesis
  proof (cases "save db s oid (upload_cast probe) None (upload_document f probe)")
    case (Inl err)
    with Some assms show ?thesis
      by (auto simp: uploadAudio_def reply_def)
  next
    case (Inr sa)
    obtain s2 a' where sa: "sa = (s2, a')" by (cases sa)
    from Inr sa have "a' = pre_save (upload_document f probe)"
      and "s2 = s\<lparr>store := (store s)(oid \<mapsto> inserted a')\<rparr>"
      by (auto dest: save_new_Inr)
    moreover from Some Inr sa assms have "s' = s2"
      by (simp add: uploadAudio_def)
    ultimately show ?thesis
      by (simp add: upload_document_fields processing_default_def results_default_def
          inserted_def minimize_field_def)
  qed
qed

theorem upload_starts_blank_witness:
  "uploadAudio ex_empty (Some ex_file) None ex_oid None =
     (Some (reply 201 True (Text ''File uploaded successfully.'')), ex_server)
   \<and> status (reply 201 True (Text ''File uploaded successfully.'')) = 201
   \<and> map_option processing (store ex_server ex_oid) =
        Some \<lparr>enhanced = False, enhancementModel = None, aqiScore = None,
              authenticityScore = None, tamperingDetected = None\<rparr>
   \<and> map_option results (store ex_server ex_oid) =
        Some \<lparr>enhancement = None, explainability = None, aqi = None, forensics = None\<rparr>"
proof -
  have st: "status (reply 201 True (Text ''File uploaded successfully.'')) = 201"
    by (simp add: reply_def)
  show ?thesis
    using upload_starts_blank [OF upload_ex st] upload_ex st by simp
qed

subsection \<open>C10: the stored format is lower case\<close>







end
